theory Spec2Isabelle
  imports Complex_Main
begin

section \<open>The diskover socket server\<close>

text \<open>
  A shallow embedding of \<^verbatim>\<open>diskover_socket_server.py\<close>: the command dispatcher
  \<^verbatim>\<open>run_command\<close>, one iteration of the worker loop \<^verbatim>\<open>socket_thread_handler\<close>
  and the accept loop of \<^verbatim>\<open>start_socket_server\<close>. The semantics of the language and
  of its standard library are those of Python 3: \<^verbatim>\<open>socket.error\<close> is \<^verbatim>\<open>OSError\<close>,
  \<^verbatim>\<open>json.loads\<close> raises a \<^verbatim>\<open>ValueError\<close> on malformed text, a missing dictionary
  key raises \<^verbatim>\<open>KeyError\<close>, and \<^verbatim>\<open>bytes + x\<close> raises \<^verbatim>\<open>TypeError\<close> unless
  \<^verbatim>\<open>x\<close> is bytes-like.
\<close>

subsection \<open>Python values\<close>

text \<open>
  Text and byte strings are both lists of characters (text is carried in its UTF-8
  encoding, so \<^verbatim>\<open>encode('utf-8')\<close> and \<^verbatim>\<open>decode('utf-8')\<close> of valid text are the
  identity). JSON can also express a text with a lone surrogate code point, such as
  \<^verbatim>\<open>"/d\ud800"\<close>, which no encoding of the host may be able to write: such a code point
  is carried as the three bytes the UTF-8 scheme gives it (\<open>0xED 0xA0 0x80\<close> for
  \<^verbatim>\<open>U+D800\<close>). The program itself encodes only the task identifier and the exit code,
  which are ASCII, and the text of \<^verbatim>\<open>diskover.get_time\<close>; what the file-system encoding
  of the host can encode is asked of the environment (\<open>fs_encodable\<close> below).
\<close>

type_synonym bytes = string

text \<open>
  A value found in a decoded JSON object or in the command-line defaults. The program
  observes such a value in three ways only: it compares it with a string literal, it
  applies \<^verbatim>\<open>str\<close> to it, and it hands it to \<^verbatim>\<open>subprocess.Popen\<close>, which accepts
  strings only. \<open>PyOther r\<close> stands for a float, a list or a dictionary whose \<^verbatim>\<open>str\<close>
  is the text \<open>r\<close>.
\<close>

datatype pyval = PyStr string | PyInt int | PyBool bool | PyNone | PyOther string

text \<open>The exceptions the program can meet; \<^verbatim>\<open>socket.error\<close> is \<open>OSError\<close>.\<close>

datatype exn = KeyError | ValueError | TypeError | OSError

fun str_nat :: "nat \<Rightarrow> string" where
  "str_nat n =
     (if n < 10 then [''0123456789'' ! n]
      else str_nat (n div 10) @ [''0123456789'' ! (n mod 10)])"

declare str_nat.simps [simp del]

definition str_int :: "int \<Rightarrow> string" where
  "str_int i = (if i < 0 then CHR ''-'' # str_nat (nat (- i)) else str_nat (nat i))"

text \<open>Python's \<^verbatim>\<open>str(v)\<close>.\<close>

fun py_str :: "pyval \<Rightarrow> string" where
  "py_str (PyStr s) = s"
| "py_str (PyInt i) = str_int i"
| "py_str (PyBool b) = (if b then ''True'' else ''False'')"
| "py_str PyNone = ''None''"
| "py_str (PyOther r) = r"

text \<open>
  What \<^verbatim>\<open>json.loads\<close> returns: a dictionary (a JSON object), or some other value (an
  array, a number, a string, a boolean or null).
\<close>

datatype decoded = Dict "string \<rightharpoonup> pyval" | NonDict

text \<open>
  \<^verbatim>\<open>command_dict[key]\<close>: a missing key raises \<^verbatim>\<open>KeyError\<close>; a value that is not a
  dictionary cannot be subscripted by a string and raises \<^verbatim>\<open>TypeError\<close>.
\<close>

definition subscript :: "decoded \<Rightarrow> string \<Rightarrow> exn + pyval" where
  "subscript command_dict key =
     (case command_dict of
        NonDict \<Rightarrow> Inl TypeError
      | Dict m \<Rightarrow> (case m key of None \<Rightarrow> Inl KeyError | Some v \<Rightarrow> Inr v))"

subsection \<open>The module \<^verbatim>\<open>diskover\<close> and the command-line defaults\<close>

text \<open>
  The module \<^verbatim>\<open>diskover\<close> is not part of the sources: its configuration dictionary
  \<^verbatim>\<open>diskover.config\<close> and its function \<^verbatim>\<open>diskover.get_time\<close> are parameters of the
  model, as is the dictionary \<^verbatim>\<open>cliargs\<close> of command-line defaults.
\<close>

record config =
  listener_host :: string
  listener_port :: nat
  config_index :: string
  python_path :: string
  diskover_path :: string

record diskover =
  config :: config
  get_time :: "real \<Rightarrow> pyval"

record cliargs =
  cli_batchsize :: pyval
  cli_adaptivebatch :: pyval

subsection \<open>Processes, effects and the environment\<close>

text \<open>
  A child process as \<^verbatim>\<open>run_command\<close> sees it: its exit code, and whether what it wrote
  to its standard output and standard error is valid UTF-8 (the program decodes both).
\<close>

record process =
  pid :: nat
  returncode :: int
  stdout_utf8 :: bool
  stderr_utf8 :: bool

text \<open>
  The effects of the program, in the order in which it performs them. \<open>Send m\<close> is a
  call of \<^verbatim>\<open>clientsock.send(m)\<close> that returned, \<open>Send_failed m\<close> one that raised
  \<^verbatim>\<open>socket.error\<close>; \<open>Popen cmd out err p\<close> is a call of
  \<^verbatim>\<open>subprocess.Popen(cmd, stdout=out, stderr=err)\<close> that returned the process \<open>p\<close>; \<open>Register t p\<close> is the assignment
  \<^verbatim>\<open>socket_tasks[t] = p\<close>; \<open>Communicate p\<close> is the return of \<^verbatim>\<open>p.communicate()\<close>, when
  the child has exited.
\<close>

datatype redirect = PIPE | Inherited

datatype event =
    Uuid4 bytes
  | Popen "pyval list" redirect redirect process
  | Register bytes process
  | Send bytes
  | Send_failed bytes
  | Communicate process
  | Close
  | Task_done

type_synonym client = "nat \<times> string"

text \<open>The two module-level globals, and the effects performed so far.\<close>

record world =
  socket_tasks :: "bytes \<rightharpoonup> process"
  clientlist :: "client list"
  trace :: "event list"

text \<open>What \<^verbatim>\<open>clientsock.recv(BUFF)\<close> followed by \<^verbatim>\<open>decode('utf-8')\<close> gives.\<close>

datatype recv_result =
    Recv_error
  | Recv_invalid_utf8
  | Recv_text string

text \<open>
  What the world outside the program does during the handling of one connection: what
  the client sends, what \<^verbatim>\<open>json.loads\<close> makes of a text (\<open>None\<close>: it raises
  \<^verbatim>\<open>ValueError\<close>), which messages the socket refuses, the identifier \<^verbatim>\<open>uuid.uuid4()\<close>
  draws, which texts the file-system encoding of the host can encode (on a UTF-8 host,
  every text without surrogates), whether the operating system starts a process for an
  argument vector, and the two readings of the clock.
\<close>

record env =
  recv :: recv_result
  json_loads :: "string \<Rightarrow> decoded option"
  send_raises :: "bytes \<Rightarrow> bool"
  uuid4 :: string
  fs_encodable :: "string \<Rightarrow> bool"
  os_spawn :: "string list \<Rightarrow> process option"
  time_start :: real
  time_end :: real

definition record_event :: "event \<Rightarrow> world \<Rightarrow> world" where
  "record_event ev w = w\<lparr>trace := trace w @ [ev]\<rparr>"

text \<open>\<^verbatim>\<open>clientsock.send(message)\<close>\<close>

definition clientsock_send :: "env \<Rightarrow> bytes \<Rightarrow> world \<Rightarrow> (exn + unit) \<times> world" where
  "clientsock_send e message w =
     (if send_raises e message then (Inl OSError, record_event (Send_failed message) w)
      else (Inr (), record_event (Send message) w))"

text \<open>
  \<^verbatim>\<open>subprocess.Popen\<close> converts every argument, in order, to a file-system path before
  it forks: an argument that is not a string raises \<^verbatim>\<open>TypeError\<close>; a string that the
  file-system encoding cannot encode raises \<^verbatim>\<open>UnicodeEncodeError\<close>, and a string with
  an embedded null character raises \<^verbatim>\<open>ValueError\<close>, of which \<^verbatim>\<open>UnicodeEncodeError\<close> is a
  subclass.
\<close>

fun check_args :: "env \<Rightarrow> pyval list \<Rightarrow> exn + string list" where
  "check_args e [] = Inr []"
| "check_args e (PyStr s # xs) =
     (if fs_encodable e s \<and> CHR 0x00 \<notin> set s
      then (case check_args e xs of Inl x \<Rightarrow> Inl x | Inr ss \<Rightarrow> Inr (s # ss))
      else Inl ValueError)"
| "check_args e (v # xs) = Inl TypeError"

text \<open>
  \<^verbatim>\<open>subprocess.Popen(cmd, stdout=..., stderr=...)\<close>; \<open>PIPE\<close> is \<^verbatim>\<open>subprocess.PIPE\<close>, which
  has the output of the child captured for \<^verbatim>\<open>communicate\<close>.
\<close>

definition subprocess_Popen ::
  "env \<Rightarrow> pyval list \<Rightarrow> redirect \<Rightarrow> redirect \<Rightarrow> world \<Rightarrow> (exn + process) \<times> world"
where
  "subprocess_Popen e cmd stdout stderr w =
     (case check_args e cmd of
        Inl x \<Rightarrow> (Inl x, w)
      | Inr argv \<Rightarrow>
          (case os_spawn e argv of
             None \<Rightarrow> (Inl OSError, w)
           | Some p \<Rightarrow> (Inr p, record_event (Popen cmd stdout stderr p) w)))"

subsection \<open>The replies\<close>

definition taskstart_message :: "bytes \<Rightarrow> bytes" where
  \<open>taskstart_message taskid = ''{"msg": "taskstart", "taskid": "'' @ taskid @ ''"}\<newline>''\<close>

definition taskfinish_message :: "bytes \<Rightarrow> bytes \<Rightarrow> bytes \<Rightarrow> bytes" where
  \<open>taskfinish_message taskid exitcode elapsedtime =
     ''{"msg": "taskfinish", "taskid": "'' @ taskid @ ''", "exitcode": '' @ exitcode @
     '', "elapsedtime": "'' @ elapsedtime @ ''"}\<newline>''\<close>

definition taskkilled_message :: bytes where
  \<open>taskkilled_message = ''{"msg": "taskkilled"}\<newline>''\<close>

definition unknown_action_message :: bytes where
  \<open>unknown_action_message = ''{"error": "unknown action"}\<newline>''\<close>

definition value_error_message :: bytes where
  \<open>value_error_message = ''{"error": "value error"}\<newline>''\<close>

subsection \<open>\<^verbatim>\<open>run_command\<close>\<close>

text \<open>
  Lines 174 to 190: a field of the command, or the default when the key is missing
  (\<^verbatim>\<open>except KeyError\<close>); \<^verbatim>\<open>str\<close> is applied to either.
\<close>

definition field_or_default :: "decoded \<Rightarrow> string \<Rightarrow> pyval \<Rightarrow> exn + string" where
  "field_or_default command_dict key dflt =
     (case subscript command_dict key of
        Inr v \<Rightarrow> Inr (py_str v)
      | Inl x \<Rightarrow> (if x = KeyError then Inr (py_str dflt) else Inl x))"

text \<open>
  Lines 193 to 234, the set-up of the command for the different actions: an argument
  vector to run, or (for \<^verbatim>\<open>kill\<close> and for an unknown action) a reply to send before
  returning.
\<close>

datatype plan = Run "pyval list" | Reply bytes

definition set_up_command :: "diskover \<Rightarrow> decoded \<Rightarrow> string \<Rightarrow> string \<Rightarrow> exn + plan" where
  "set_up_command dk command_dict batchsize index =
     (case subscript command_dict ''action'' of
        Inl x \<Rightarrow> Inl x
      | Inr action \<Rightarrow>
          let pythonpath = python_path (config dk);
              diskoverpath = diskover_path (config dk)
          in
            if action = PyStr ''crawl'' then
              (case subscript command_dict ''path'' of
                 Inl x \<Rightarrow> Inl x
               | Inr path \<Rightarrow>
                   Inr (Run [PyStr pythonpath, PyStr ''-u'', PyStr diskoverpath, PyStr ''-b'',
                             PyStr batchsize, PyStr ''-i'', PyStr index, PyStr ''-d'', path,
                             PyStr ''-q'']))
            else if action = PyStr ''finddupes'' then
              Inr (Run [PyStr pythonpath, PyStr ''-u'', PyStr diskoverpath, PyStr ''-b'',
                        PyStr batchsize, PyStr ''-i'', PyStr index, PyStr ''--finddupes'',
                        PyStr ''-q''])
            else if action = PyStr ''reindex'' then
              (case (case subscript command_dict ''recursive'' of
                       Inr r \<Rightarrow> Inr r
                     | Inl x \<Rightarrow> (if x = KeyError then Inr (PyStr ''false'') else Inl x)) of
                 Inl x \<Rightarrow> Inl x
               | Inr recursive \<Rightarrow>
                   (case subscript command_dict ''path'' of
                      Inl x \<Rightarrow> Inl x
                    | Inr path \<Rightarrow>
                        if recursive = PyStr ''true'' then
                          Inr (Run [PyStr pythonpath, PyStr ''-u'', PyStr diskoverpath,
                                    PyStr ''-b'', PyStr batchsize, PyStr ''-i'', PyStr index,
                                    PyStr ''-d'', path, PyStr ''-R'', PyStr ''-q''])
                        else
                          Inr (Run [PyStr pythonpath, PyStr ''-u'', PyStr diskoverpath,
                                    PyStr ''-b'', PyStr batchsize, PyStr ''-i'', PyStr index,
                                    PyStr ''-d'', path, PyStr ''-r'', PyStr ''-q''])))
            else if action = PyStr ''kill'' then
              (case subscript command_dict ''taskid'' of
                 Inl x \<Rightarrow> Inl x
               | Inr taskid \<Rightarrow> Inr (Reply taskkilled_message))
            else Inr (Reply unknown_action_message))"

text \<open>Lines 236 to 238: the adaptive batch flag.\<close>

definition add_adaptive_batch :: "string \<Rightarrow> pyval list \<Rightarrow> pyval list" where
  "add_adaptive_batch adaptivebatch cmd =
     (if adaptivebatch = ''True'' \<or> adaptivebatch = ''true'' then cmd @ [PyStr ''-a'']
      else cmd)"

text \<open>
  Lines 240 to 270: the task identifier, the process, the registry, the two replies.
  Decoding the captured output for the log raises \<^verbatim>\<open>UnicodeDecodeError\<close>, a
  \<^verbatim>\<open>ValueError\<close>, when it is not UTF-8.
\<close>

definition run_process :: "diskover \<Rightarrow> env \<Rightarrow> pyval list \<Rightarrow> world \<Rightarrow> (exn + unit) \<times> world" where
  "run_process dk e cmd w =
     (let starttime = time_start e;
          taskid = uuid4 e;
          w1 = record_event (Uuid4 taskid) w
      in (case subprocess_Popen e cmd PIPE PIPE w1 of
            (Inl x, w2) \<Rightarrow> (Inl x, w2)
          | (Inr process, w2) \<Rightarrow>
              (let w3 = record_event (Register taskid process)
                          (w2\<lparr>socket_tasks := (socket_tasks w2)(taskid \<mapsto> process)\<rparr>)
               in (case clientsock_send e (taskstart_message taskid) w3 of
                     (Inl x, w4) \<Rightarrow> (Inl x, w4)
                   | (Inr u, w4) \<Rightarrow>
                       (let w5 = record_event (Communicate process) w4;
                            exitcode = str_int (returncode process)
                        in if stdout_utf8 process \<and> stderr_utf8 process then
                             (let elapsedtime = py_str (get_time dk (time_end e - starttime))
                              in clientsock_send e
                                   (taskfinish_message taskid exitcode elapsedtime) w5)
                           else (Inl ValueError, w5))))))"

text \<open>Lines 192 to 270, the body of the \<^verbatim>\<open>try\<close> statement.\<close>

definition run_command_try ::
  "diskover \<Rightarrow> env \<Rightarrow> decoded \<Rightarrow> string \<Rightarrow> string \<Rightarrow> string \<Rightarrow> world \<Rightarrow> (exn + unit) \<times> world"
where
  "run_command_try dk e command_dict index batchsize adaptivebatch w =
     (case set_up_command dk command_dict batchsize index of
        Inl x \<Rightarrow> (Inl x, w)
      | Inr (Reply message) \<Rightarrow> clientsock_send e message w
      | Inr (Run cmd) \<Rightarrow> run_process dk e (add_adaptive_batch adaptivebatch cmd) w)"

text \<open>
  Lines 272 to 280, the two handlers of the \<^verbatim>\<open>try\<close> statement: \<^verbatim>\<open>ValueError\<close> is
  answered with a reply, \<^verbatim>\<open>socket.error\<close> is logged; every other exception leaves the
  function, and so does one raised by the send inside the first handler.
\<close>

definition run_command_except :: "env \<Rightarrow> (exn + unit) \<times> world \<Rightarrow> (exn + unit) \<times> world" where
  "run_command_except e r =
     (case r of
        (Inr u, w') \<Rightarrow> (Inr u, w')
      | (Inl x, w') \<Rightarrow>
          if x = ValueError then clientsock_send e value_error_message w'
          else if x = OSError then (Inr (), w')
          else (Inl x, w'))"

text \<open>
  The whole function: the three optional fields (outside the \<^verbatim>\<open>try\<close> statement), then
  the \<^verbatim>\<open>try\<close> statement.
\<close>

definition run_command ::
  "diskover \<Rightarrow> cliargs \<Rightarrow> env \<Rightarrow> decoded \<Rightarrow> world \<Rightarrow> (exn + unit) \<times> world"
where
  "run_command dk cli e command_dict w =
     (case field_or_default command_dict ''index'' (PyStr (config_index (config dk))) of
        Inl x \<Rightarrow> (Inl x, w)
      | Inr index \<Rightarrow>
     (case field_or_default command_dict ''batchsize'' (cli_batchsize cli) of
        Inl x \<Rightarrow> (Inl x, w)
      | Inr batchsize \<Rightarrow>
     (case field_or_default command_dict ''adaptivebatch'' (cli_adaptivebatch cli) of
        Inl x \<Rightarrow> (Inl x, w)
      | Inr adaptivebatch \<Rightarrow>
          run_command_except e
            (run_command_try dk e command_dict index batchsize adaptivebatch w))))"

subsection \<open>Observations of a trace\<close>

fun spawned :: "event list \<Rightarrow> pyval list list" where
  "spawned [] = []"
| "spawned (Popen cmd out err p # es) = cmd # spawned es"
| "spawned (ev # es) = spawned es"

fun generated :: "event list \<Rightarrow> bytes list" where
  "generated [] = []"
| "generated (Uuid4 t # es) = t # generated es"
| "generated (ev # es) = generated es"

fun sent :: "event list \<Rightarrow> bytes list" where
  "sent [] = []"
| "sent (Send m # es) = m # sent es"
| "sent (ev # es) = sent es"

fun closes :: "event list \<Rightarrow> nat" where
  "closes [] = 0"
| "closes (Close # es) = Suc (closes es)"
| "closes (ev # es) = closes es"

subsection \<open>\<^verbatim>\<open>socket_thread_handler\<close>\<close>

text \<open>
  \<^verbatim>\<open>data.split('\r\n')\<close>: the pieces of the text between the occurrences of a carriage
  return followed by a line feed, read from the left. The program keeps the last piece.
\<close>

fun py_split_crlf :: "string \<Rightarrow> string list" where
  "py_split_crlf [] = [[]]"
| "py_split_crlf [c] = [[c]]"
| "py_split_crlf (c # d # cs) =
     (if c = CHR 0x0D \<and> d = CHR 0x0A then [] # py_split_crlf cs
      else (case py_split_crlf (d # cs) of [] \<Rightarrow> [[c]] | r # rs \<Rightarrow> (c # r) # rs))"

text \<open>
  \<^verbatim>\<open>clientsock.close()\<close> followed by \<^verbatim>\<open>q.task_done()\<close>, as they stand at lines 51 to 54,
  76 to 79, 88 to 91 and 97 to 100.
\<close>

definition close_connection :: "world \<Rightarrow> world" where
  "close_connection w = record_event Task_done (record_event Close w)"

text \<open>
  Lines 81 to 92, the handler of \<^verbatim>\<open>ValueError\<close> and \<^verbatim>\<open>TypeError\<close>. Line 84 builds the
  reply as \<^verbatim>\<open>b'{"msg": "error", "error": ' + e + b'}\n'\<close>, where \<^verbatim>\<open>e\<close> is the exception
  caught: adding an exception object to a byte string raises \<^verbatim>\<open>TypeError\<close>. The
  statements after it (the send at line 85, the close at line 88) are not reached, and
  an exception raised inside a handler is not caught by the other handlers of the same
  \<^verbatim>\<open>try\<close> statement: it leaves the loop.
\<close>

definition invalid_json_handler :: "world \<Rightarrow> (exn + unit) \<times> world" where
  "invalid_json_handler w = (Inl TypeError, w)"

text \<open>Lines 94 to 101, the handler of \<^verbatim>\<open>socket.error\<close>.\<close>

definition socket_error_handler :: "world \<Rightarrow> (exn + unit) \<times> world" where
  "socket_error_handler w = (Inr (), close_connection w)"

text \<open>Lines 41 to 79, the body of the \<^verbatim>\<open>try\<close> statement, for one connection.\<close>

definition handle_client_try ::
  "diskover \<Rightarrow> cliargs \<Rightarrow> env \<Rightarrow> world \<Rightarrow> (exn + unit) \<times> world"
where
  "handle_client_try dk cli e w =
     (case recv e of
        Recv_error \<Rightarrow> (Inl OSError, w)
      | Recv_invalid_utf8 \<Rightarrow> (Inl ValueError, w)
      | Recv_text data \<Rightarrow>
          if data = [] then (Inr (), close_connection w)
          else
            (case (if data = ''ping'' then clientsock_send e ''pong'' w
                   else (case json_loads e (last (py_split_crlf data)) of
                           None \<Rightarrow> (Inl ValueError, w)
                         | Some command_dict \<Rightarrow> run_command dk cli e command_dict w)) of
               (Inl x, w') \<Rightarrow> (Inl x, w')
             | (Inr u, w') \<Rightarrow> (Inr (), close_connection w')))"

text \<open>
  One iteration of the loop \<^verbatim>\<open>while True\<close> of \<^verbatim>\<open>socket_thread_handler\<close>. The result
  \<open>Inr ()\<close> is the start of the next iteration; \<open>Inl x\<close> is the exception \<open>x\<close> leaving
  the function, which ends the worker thread.
\<close>

definition handle_client ::
  "diskover \<Rightarrow> cliargs \<Rightarrow> env \<Rightarrow> world \<Rightarrow> (exn + unit) \<times> world"
where
  "handle_client dk cli e w =
     (case handle_client_try dk cli e w of
        (Inr u, w') \<Rightarrow> (Inr u, w')
      | (Inl x, w') \<Rightarrow>
          if x = ValueError \<or> x = TypeError then invalid_json_handler w'
          else if x = OSError then socket_error_handler w'
          else (Inl x, w'))"

text \<open>
  The loop, on the connections this worker takes from the queue, each with what the
  outside world does while it is handled. \<open>None\<close>: the worker waits in \<^verbatim>\<open>q.get()\<close>;
  \<open>Some x\<close>: the exception \<open>x\<close> has ended it.
\<close>

fun socket_thread_handler ::
  "diskover \<Rightarrow> cliargs \<Rightarrow> env list \<Rightarrow> world \<Rightarrow> exn option \<times> world"
where
  "socket_thread_handler dk cli [] w = (None, w)"
| "socket_thread_handler dk cli (e # es) w =
     (case handle_client dk cli e w of
        (Inr u, w') \<Rightarrow> socket_thread_handler dk cli es w'
      | (Inl x, w') \<Rightarrow> (Some x, w'))"

subsection \<open>\<^verbatim>\<open>start_socket_server\<close>\<close>

text \<open>
  The accept loop (lines 139 to 151) and the workers, as the steps of one system: the
  acceptor takes a connection and appends it to \<^verbatim>\<open>clientlist\<close> (\<open>Accept\<close>), then puts
  it on the queue, which it can do only while the queue holds fewer than
  \<^verbatim>\<open>max_connections\<close> entries (\<open>Put\<close>); a worker takes the oldest connection from the
  queue and handles it (\<open>Work\<close>). Between \<open>Accept\<close> and \<open>Put\<close> the acceptor holds the
  connection in \<open>pending\<close>. A step that cannot be taken gives \<open>None\<close>. The workers
  are not counted, and a worker handles its connection in one step: the handler reads
  and writes neither \<^verbatim>\<open>clientlist\<close> nor the queue while it runs, so every run of the
  program is, for these two, a run of this system.
\<close>

definition max_connections :: nat where
  "max_connections = 5"

record server =
  globals :: world
  queue :: "client list"
  pending :: "client option"

datatype step = Accept client | Put | Work env

fun server_step :: "diskover \<Rightarrow> cliargs \<Rightarrow> step \<Rightarrow> server \<Rightarrow> server option" where
  "server_step dk cli (Accept c) s =
     (case pending s of
        Some c' \<Rightarrow> None
      | None \<Rightarrow>
          Some (s\<lparr>globals := (globals s)\<lparr>clientlist := clientlist (globals s) @ [c]\<rparr>,
                  pending := Some c\<rparr>))"
| "server_step dk cli Put s =
     (case pending s of
        None \<Rightarrow> None
      | Some c \<Rightarrow>
          if length (queue s) < max_connections
          then Some (s\<lparr>queue := queue s @ [c], pending := None\<rparr>)
          else None)"
| "server_step dk cli (Work e) s =
     (case queue s of
        [] \<Rightarrow> None
      | c # cs \<Rightarrow> Some (s\<lparr>queue := cs, globals := snd (handle_client dk cli e (globals s))\<rparr>))"

fun run_server :: "diskover \<Rightarrow> cliargs \<Rightarrow> step list \<Rightarrow> server \<Rightarrow> server option" where
  "run_server dk cli [] s = Some s"
| "run_server dk cli (a # as) s =
     (case server_step dk cli a s of
        None \<Rightarrow> None
      | Some s' \<Rightarrow> run_server dk cli as s')"

fun accepted :: "step list \<Rightarrow> client list" where
  "accepted [] = []"
| "accepted (Accept c # as) = c # accepted as"
| "accepted (a # as) = accepted as"

text \<open>The state of the module when the server starts (lines 29 and 31, line 114).\<close>

definition initial_world :: world where
  "initial_world = \<lparr>socket_tasks = Map.empty, clientlist = [], trace = []\<rparr>"

definition initial_server :: server where
  "initial_server = \<lparr>globals = initial_world, queue = [], pending = None\<rparr>"

subsection \<open>A concrete configuration and environment\<close>

text \<open>
  The values on which the general statements below are instantiated: a configuration,
  the command-line defaults, a child process that exits with code 0, and an outside
  world in which nothing fails, on a host whose file-system encoding is ASCII. Its
  \<open>json_loads\<close> is the restriction of \<^verbatim>\<open>json.loads\<close> to the request texts used below;
  every other text used below is not JSON.
\<close>

definition example_diskover :: diskover where
  "example_diskover =
     \<lparr>config = \<lparr>listener_host = ''localhost'', listener_port = 9999,
                 config_index = ''diskover-index'', python_path = ''python'',
                 diskover_path = ''./diskover.py''\<rparr>,
      get_time = (\<lambda>t. PyStr ''0:00:02'')\<rparr>"

definition example_cliargs :: cliargs where
  "example_cliargs = \<lparr>cli_batchsize = PyInt 50, cli_adaptivebatch = PyBool False\<rparr>"

definition example_process :: process where
  "example_process = \<lparr>pid = 4242, returncode = 0, stdout_utf8 = True, stderr_utf8 = True\<rparr>"

definition example_json_loads :: "string \<Rightarrow> decoded option" where
  \<open>example_json_loads s =
     (if s = ''{"action": "crawl", "path": "/data"}''
        then Some (Dict [''action'' \<mapsto> PyStr ''crawl'', ''path'' \<mapsto> PyStr ''/data''])
      else if s = ''{"action": "crawl"}''
        then Some (Dict [''action'' \<mapsto> PyStr ''crawl''])
      else if s = ''{"index": "idx"}''
        then Some (Dict [''index'' \<mapsto> PyStr ''idx''])
      else None)\<close>

definition example_env :: "string \<Rightarrow> env" where
  "example_env data =
     \<lparr>recv = Recv_text data, json_loads = example_json_loads, send_raises = (\<lambda>m. False),
      uuid4 = ''6f1c0a52-8d3e-4b7a-9c41-2e5d7f90ab13'',
      fs_encodable = list_all (\<lambda>c. (of_char c :: nat) < 128),
      os_spawn = (\<lambda>argv. Some example_process), time_start = 10, time_end = 12\<rparr>"

section \<open>Basic facts\<close>

subsection \<open>The text of a value\<close>

lemma py_str_examples:
  "py_str (PyStr ''/data'') = ''/data'' \<and> py_str (PyInt 50) = ''50''
   \<and> py_str (PyBool True) = ''True'' \<and> py_str (PyBool False) = ''False''
   \<and> py_str PyNone = ''None'' \<and> py_str (PyOther ''[1, 2]'') = ''[1, 2]''"
  by (simp add: str_int_def str_nat.simps)

lemma str_int_examples:
  "str_int 0 = ''0'' \<and> str_int 9 = ''9'' \<and> str_int 10 = ''10'' \<and> str_int 255 = ''255''
   \<and> str_int 1205 = ''1205'' \<and> str_int (- 15) = ''-15''"
  by (simp add: str_int_def str_nat.simps)

subsection \<open>The fields of a command and the arguments of a process\<close>

lemma check_args_strings:
  "list_all (\<lambda>s. fs_encodable e s \<and> CHR 0x00 \<notin> set s) ss \<Longrightarrow>
     check_args e (map PyStr ss) = Inr ss"
  by (induction ss) simp_all

text \<open>
  \<open>check_args\<close> accepts exactly the vectors of strings that the file-system encoding
  can encode and that hold no null character.
\<close>

lemma check_args_iff:
  "check_args e cmd = Inr argv \<longleftrightarrow>
     cmd = map PyStr argv \<and> list_all (\<lambda>s. fs_encodable e s \<and> CHR 0x00 \<notin> set s) argv"
proof (induction cmd arbitrary: argv)
  case Nil
  then show ?case by auto
next
  case (Cons v cmd)
  show ?case
  proof (cases v)
    case (PyStr s)
    with Cons show ?thesis
      by (cases argv; cases "check_args e cmd") auto
  qed auto
qed

lemma field_or_default_Dict:
  "field_or_default (Dict m) key dflt =
     Inr (py_str (case m key of Some v \<Rightarrow> v | None \<Rightarrow> dflt))"
  by (simp add: field_or_default_def subscript_def split: option.split)

lemma run_command_Dict:
  "run_command dk cli e (Dict m) w =
     run_command_except e
       (run_command_try dk e (Dict m)
          (py_str (case m ''index'' of Some v \<Rightarrow> v | None \<Rightarrow> PyStr (config_index (config dk))))
          (py_str (case m ''batchsize'' of Some v \<Rightarrow> v | None \<Rightarrow> cli_batchsize cli))
          (py_str (case m ''adaptivebatch'' of Some v \<Rightarrow> v | None \<Rightarrow> cli_adaptivebatch cli)) w)"
  by (simp add: run_command_def field_or_default_Dict)

subsection \<open>The steps of a task\<close>

text \<open>
  When the process starts, the first reply is accepted and the captured output is valid
  UTF-8, \<open>run_process\<close> reaches its last statement, the send of the taskfinish reply.
\<close>

lemma run_process_success:
  assumes "check_args e cmd = Inr argv"
    and "os_spawn e argv = Some p"
    and "\<not> send_raises e (taskstart_message (uuid4 e))"
    and "stdout_utf8 p" and "stderr_utf8 p"
  shows "run_process dk e cmd w =
           clientsock_send e
             (taskfinish_message (uuid4 e) (str_int (returncode p))
                (py_str (get_time dk (time_end e - time_start e))))
             (w\<lparr>socket_tasks := (socket_tasks w)(uuid4 e \<mapsto> p),
                trace := trace w @ [Uuid4 (uuid4 e), Popen cmd PIPE PIPE p, Register (uuid4 e) p,
                                    Send (taskstart_message (uuid4 e)), Communicate p]\<rparr>)"
  using assms
  by (simp add: run_process_def subprocess_Popen_def clientsock_send_def record_event_def Let_def)

text \<open>
  In every run, whatever fails, the effects of \<open>run_process\<close> are an initial segment
  of one sequence: the identifier, the process, the registry entry, the taskstart reply,
  the wait for the child, the taskfinish reply. So a taskfinish reply is never sent
  unless the taskstart reply with the same identifier was sent before it.
\<close>

lemma run_process_steps_prefix:
  "\<exists>n p. 0 < n \<and> trace (snd (run_process dk e cmd w)) =
      trace w @ take n
        [Uuid4 (uuid4 e), Popen cmd PIPE PIPE p, Register (uuid4 e) p,
         (if send_raises e (taskstart_message (uuid4 e))
          then Send_failed (taskstart_message (uuid4 e))
          else Send (taskstart_message (uuid4 e))),
         Communicate p,
         (if send_raises e (taskfinish_message (uuid4 e) (str_int (returncode p))
                              (py_str (get_time dk (time_end e - time_start e))))
          then Send_failed (taskfinish_message (uuid4 e) (str_int (returncode p))
                              (py_str (get_time dk (time_end e - time_start e))))
          else Send (taskfinish_message (uuid4 e) (str_int (returncode p))
                              (py_str (get_time dk (time_end e - time_start e)))))]"
proof (cases "check_args e cmd")
  case (Inl x)
  then have "trace (snd (run_process dk e cmd w)) = trace w @ [Uuid4 (uuid4 e)]"
    by (simp add: run_process_def subprocess_Popen_def record_event_def)
  then show ?thesis by (intro exI [of _ 1]) simp
next
  case (Inr argv)
  show ?thesis
  proof (cases "os_spawn e argv")
    case None
    with Inr have "trace (snd (run_process dk e cmd w)) = trace w @ [Uuid4 (uuid4 e)]"
      by (simp add: run_process_def subprocess_Popen_def record_event_def)
    then show ?thesis by (intro exI [of _ 1]) simp
  next
    case (Some p)
    show ?thesis
    proof (cases "send_raises e (taskstart_message (uuid4 e))")
      case True
      with Inr Some show ?thesis
        by (intro exI [of _ 4] exI [of _ p])
           (simp add: run_process_def subprocess_Popen_def record_event_def clientsock_send_def
              Let_def)
    next
      case False
      show ?thesis
      proof (cases "stdout_utf8 p \<and> stderr_utf8 p")
        case True
        with Inr Some False show ?thesis
          by (intro exI [of _ 6] exI [of _ p])
             (simp add: run_process_def subprocess_Popen_def record_event_def
                clientsock_send_def Let_def)
      next
        case no_utf8: False
        with Inr Some False show ?thesis
          by (intro exI [of _ 5] exI [of _ p])
             (auto simp add: run_process_def subprocess_Popen_def record_event_def
                clientsock_send_def Let_def)
      qed
    qed
  qed
qed

text \<open>
  In every run of a task exactly one identifier is generated and at most one process
  is spawned, and its argument vector is the one \<open>run_process\<close> was given; the
  handlers of \<^verbatim>\<open>run_command\<close> generate and spawn nothing.
\<close>

lemma spawned_append: "spawned (xs @ ys) = spawned xs @ spawned ys"
  by (induction xs rule: spawned.induct) simp_all

lemma generated_append: "generated (xs @ ys) = generated xs @ generated ys"
  by (induction xs rule: generated.induct) simp_all

lemma run_process_spawned:
  "\<exists>evs. trace (snd (run_process dk e cmd w)) = trace w @ evs \<and>
     generated evs = [uuid4 e] \<and> (spawned evs = [] \<or> spawned evs = [cmd])"
proof -
  obtain n p where n: "0 < n" and "trace (snd (run_process dk e cmd w)) =
      trace w @ take n
        [Uuid4 (uuid4 e), Popen cmd PIPE PIPE p, Register (uuid4 e) p,
         (if send_raises e (taskstart_message (uuid4 e))
          then Send_failed (taskstart_message (uuid4 e))
          else Send (taskstart_message (uuid4 e))),
         Communicate p,
         (if send_raises e (taskfinish_message (uuid4 e) (str_int (returncode p))
                              (py_str (get_time dk (time_end e - time_start e))))
          then Send_failed (taskfinish_message (uuid4 e) (str_int (returncode p))
                              (py_str (get_time dk (time_end e - time_start e))))
          else Send (taskfinish_message (uuid4 e) (str_int (returncode p))
                              (py_str (get_time dk (time_end e - time_start e)))))]"
    (is "_ = _ @ take n ?steps")
    using run_process_steps_prefix [of dk e cmd w] by blast
  moreover have "spawned (take n ?steps) = [] \<or> spawned (take n ?steps) = [cmd]"
    by (simp add: take_Cons split: nat.split)
  moreover have "generated (take n ?steps) = [uuid4 e]"
    using n by (simp add: take_Cons split: nat.split)
  ultimately show ?thesis by blast
qed

lemma run_command_except_spawned:
  assumes "trace (snd r) = trace w @ evs"
  shows "\<exists>evs'. trace (snd (run_command_except e r)) = trace w @ evs' \<and>
           generated evs' = generated evs \<and> spawned evs' = spawned evs"
proof (cases r)
  case (Pair x w')
  show ?thesis
  proof (cases "x = Inl ValueError")
    case True
    with Pair assms show ?thesis
      by (intro exI [of _ "evs @ [if send_raises e value_error_message
                                  then Send_failed value_error_message
                                  else Send value_error_message]"])
         (simp add: run_command_except_def clientsock_send_def record_event_def spawned_append
            generated_append)
  next
    case False
    with Pair assms show ?thesis
      by (intro exI [of _ evs])
         (auto simp add: run_command_except_def split: sum.split)
  qed
qed




subsection \<open>An unknown action\<close>

text \<open>
  A command whose \<^verbatim>\<open>action\<close> is present and is none of the four known ones is answered
  with the unknown action reply; nothing is spawned and the registry is untouched.
\<close>

lemma unknown_action_reply:
  assumes "m ''action'' = Some action"
    and "action \<notin> {PyStr ''crawl'', PyStr ''finddupes'', PyStr ''reindex'', PyStr ''kill''}"
  shows \<open>run_command dk cli e (Dict m) w =
           (Inr (), w\<lparr>trace := trace w @
                        [if send_raises e ''{"error": "unknown action"}\<newline>''
                         then Send_failed ''{"error": "unknown action"}\<newline>''
                         else Send ''{"error": "unknown action"}\<newline>'']\<rparr>)\<close>
  unfolding run_command_Dict using assms
  by (simp add: run_command_try_def run_command_except_def set_up_command_def subscript_def
      clientsock_send_def record_event_def unknown_action_message_def)

subsection \<open>Nothing but the acceptor touches the client list\<close>

lemma clientsock_send_clientlist:
  "clientlist (snd (clientsock_send e message w)) = clientlist w"
  by (simp add: clientsock_send_def record_event_def)

lemma subprocess_Popen_clientlist:
  "clientlist (snd (subprocess_Popen e cmd out err w)) = clientlist w"
  by (simp add: subprocess_Popen_def record_event_def split: sum.split option.split)

lemma run_process_clientlist:
  "clientlist (snd (run_process dk e cmd w)) = clientlist w"
proof -
  obtain r1 w2 where popen: "subprocess_Popen e cmd PIPE PIPE (record_event (Uuid4 (uuid4 e)) w) = (r1, w2)"
    by (cases "subprocess_Popen e cmd PIPE PIPE (record_event (Uuid4 (uuid4 e)) w)")
  have w2: "clientlist w2 = clientlist w"
    using subprocess_Popen_clientlist [of e cmd PIPE PIPE "record_event (Uuid4 (uuid4 e)) w"] popen
    by (simp add: record_event_def)
  show ?thesis
  proof (cases r1)
    case (Inl x)
    with popen w2 show ?thesis by (simp add: run_process_def)
  next
    case (Inr process)
    let ?w3 = "record_event (Register (uuid4 e) process)
                 (w2\<lparr>socket_tasks := (socket_tasks w2)(uuid4 e \<mapsto> process)\<rparr>)"
    obtain r4 w4 where start: "clientsock_send e (taskstart_message (uuid4 e)) ?w3 = (r4, w4)"
      by (cases "clientsock_send e (taskstart_message (uuid4 e)) ?w3")
    have w4: "clientlist w4 = clientlist w"
      using clientsock_send_clientlist [of e "taskstart_message (uuid4 e)" ?w3] start w2
      by (simp add: record_event_def)
    show ?thesis
      using popen Inr start w4
      by (cases r4) (simp_all add: run_process_def Let_def clientsock_send_clientlist record_event_def)
  qed
qed

lemma run_command_try_clientlist:
  "clientlist (snd (run_command_try dk e command_dict index batchsize adaptivebatch w)) =
     clientlist w"
  by (simp add: run_command_try_def clientsock_send_clientlist run_process_clientlist
      split: sum.split plan.split)

lemma run_command_except_clientlist:
  "clientlist (snd (run_command_except e r)) = clientlist (snd r)"
  by (cases r) (simp add: run_command_except_def clientsock_send_clientlist split: sum.split)

lemma run_command_clientlist:
  "clientlist (snd (run_command dk cli e command_dict w)) = clientlist w"
  by (simp add: run_command_def run_command_except_clientlist run_command_try_clientlist
      split: sum.split)

lemma close_connection_clientlist:
  "clientlist (close_connection w) = clientlist w"
  by (simp add: close_connection_def record_event_def)

lemma handle_client_try_clientlist:
  "clientlist (snd (handle_client_try dk cli e w)) = clientlist w"
proof (cases "recv e")
  case (Recv_text data)
  show ?thesis
  proof (cases "data = []")
    case True
    with Recv_text show ?thesis
      by (simp add: handle_client_try_def close_connection_clientlist)
  next
    case False
    define r where
      "r = (if data = ''ping'' then clientsock_send e ''pong'' w
            else (case json_loads e (last (py_split_crlf data)) of
                    None \<Rightarrow> (Inl ValueError, w)
                  | Some command_dict \<Rightarrow> run_command dk cli e command_dict w))"
    have "clientlist (snd r) = clientlist w"
      unfolding r_def
      by (simp add: clientsock_send_clientlist run_command_clientlist split: option.split)
    moreover have "handle_client_try dk cli e w =
        (case r of (Inl x, w') \<Rightarrow> (Inl x, w') | (Inr u, w') \<Rightarrow> (Inr (), close_connection w'))"
      using Recv_text False unfolding r_def by (simp add: handle_client_try_def)
    ultimately show ?thesis
      by (cases r) (simp add: close_connection_clientlist split: sum.split)
  qed
qed (simp_all add: handle_client_try_def)

lemma handle_client_clientlist:
  "clientlist (snd (handle_client dk cli e w)) = clientlist w"
  using handle_client_try_clientlist [of dk cli e w]
  by (cases "handle_client_try dk cli e w")
     (simp add: handle_client_def invalid_json_handler_def socket_error_handler_def
        close_connection_clientlist split: sum.split)

lemma server_step_clientlist:
  assumes "server_step dk cli a s = Some s'"
  shows "clientlist (globals s') = clientlist (globals s) @ accepted [a]"
  using assms handle_client_clientlist [of dk cli _ "globals s"]
  by (cases a) (auto split: option.splits list.splits if_splits)

lemma server_step_queue:
  assumes "server_step dk cli a s = Some s'"
    and "set (queue s) \<union> set_option (pending s) \<subseteq> set (clientlist (globals s))"
  shows "set (queue s') \<union> set_option (pending s') \<subseteq> set (clientlist (globals s'))"
  using assms handle_client_clientlist [of dk cli _ "globals s"]
  by (cases a) (auto split: option.splits list.splits if_splits)

lemma run_server_clientlist:
  assumes "run_server dk cli as s = Some s'"
  shows "clientlist (globals s') = clientlist (globals s) @ accepted as"
  using assms
proof (induction as arbitrary: s)
  case Nil
  then show ?case by simp
next
  case (Cons a as)
  from Cons.prems obtain s1 where step: "server_step dk cli a s = Some s1"
    and rest: "run_server dk cli as s1 = Some s'"
    by (auto split: option.splits)
  have "accepted (a # as) = accepted [a] @ accepted as"
    by (cases a) simp_all
  with Cons.IH [OF rest] server_step_clientlist [OF step] show ?case by simp
qed

lemma run_server_queue:
  assumes "run_server dk cli as s = Some s'"
    and "set (queue s) \<union> set_option (pending s) \<subseteq> set (clientlist (globals s))"
  shows "set (queue s') \<union> set_option (pending s') \<subseteq> set (clientlist (globals s'))"
  using assms
proof (induction as arbitrary: s)
  case Nil
  then show ?case by simp
next
  case (Cons a as)
  from Cons.prems(1) obtain s1 where step: "server_step dk cli a s = Some s1"
    and rest: "run_server dk cli as s1 = Some s'"
    by (auto split: option.splits)
  show ?case
    by (rule Cons.IH [OF rest server_step_queue [OF step Cons.prems(2)]])
qed

subsection \<open>How often one iteration of the worker closes the connection\<close>

lemma closes_append: "closes (xs @ ys) = closes xs + closes ys"
  by (induction xs rule: closes.induct) simp_all

lemma clientsock_send_closes:
  "closes (trace (snd (clientsock_send e message w))) = closes (trace w)"
  by (simp add: clientsock_send_def record_event_def closes_append)

lemma subprocess_Popen_closes:
  "closes (trace (snd (subprocess_Popen e cmd out err w))) = closes (trace w)"
  by (simp add: subprocess_Popen_def record_event_def closes_append split: sum.split option.split)

lemma run_process_closes:
  "closes (trace (snd (run_process dk e cmd w))) = closes (trace w)"
proof -
  obtain r1 w2 where popen: "subprocess_Popen e cmd PIPE PIPE (record_event (Uuid4 (uuid4 e)) w) = (r1, w2)"
    by (cases "subprocess_Popen e cmd PIPE PIPE (record_event (Uuid4 (uuid4 e)) w)")
  have w2: "closes (trace w2) = closes (trace w)"
    using subprocess_Popen_closes [of e cmd PIPE PIPE "record_event (Uuid4 (uuid4 e)) w"] popen
    by (simp add: record_event_def closes_append)
  show ?thesis
  proof (cases r1)
    case (Inl x)
    with popen w2 show ?thesis by (simp add: run_process_def)
  next
    case (Inr process)
    let ?w3 = "record_event (Register (uuid4 e) process)
                 (w2\<lparr>socket_tasks := (socket_tasks w2)(uuid4 e \<mapsto> process)\<rparr>)"
    obtain r4 w4 where start: "clientsock_send e (taskstart_message (uuid4 e)) ?w3 = (r4, w4)"
      by (cases "clientsock_send e (taskstart_message (uuid4 e)) ?w3")
    have w4: "closes (trace w4) = closes (trace w)"
      using clientsock_send_closes [of e "taskstart_message (uuid4 e)" ?w3] start w2
      by (simp add: record_event_def closes_append)
    show ?thesis
      using popen Inr start w4
      by (cases r4)
         (simp_all add: run_process_def Let_def clientsock_send_closes record_event_def
            closes_append)
  qed
qed

lemma run_command_closes:
  "closes (trace (snd (run_command dk cli e command_dict w))) = closes (trace w)"
proof -
  have body: "closes (trace (snd (run_command_try dk e command_dict i b a w))) = closes (trace w)"
    for i b a
    by (simp add: run_command_try_def clientsock_send_closes run_process_closes
        split: sum.split plan.split)
  have handlers: "closes (trace (snd (run_command_except e r))) = closes (trace (snd r))" for r
    by (cases r) (simp add: run_command_except_def clientsock_send_closes split: sum.split)
  show ?thesis
    by (simp add: run_command_def handlers body split: sum.split)
qed

lemma close_connection_closes:
  "closes (trace (close_connection w)) = Suc (closes (trace w))"
  by (simp add: close_connection_def record_event_def closes_append)

lemma handle_client_try_closes:
  "closes (trace (snd (handle_client_try dk cli e w))) =
     closes (trace w) + (case fst (handle_client_try dk cli e w) of Inl x \<Rightarrow> 0 | Inr u \<Rightarrow> 1)"
proof (cases "recv e")
  case (Recv_text data)
  show ?thesis
  proof (cases "data = []")
    case True
    with Recv_text show ?thesis
      by (simp add: handle_client_try_def close_connection_closes)
  next
    case False
    define r where
      "r = (if data = ''ping'' then clientsock_send e ''pong'' w
            else (case json_loads e (last (py_split_crlf data)) of
                    None \<Rightarrow> (Inl ValueError, w)
                  | Some command_dict \<Rightarrow> run_command dk cli e command_dict w))"
    have "closes (trace (snd r)) = closes (trace w)"
      unfolding r_def
      by (simp add: clientsock_send_closes run_command_closes split: option.split)
    moreover have "handle_client_try dk cli e w =
        (case r of (Inl x, w') \<Rightarrow> (Inl x, w') | (Inr u, w') \<Rightarrow> (Inr (), close_connection w'))"
      using Recv_text False unfolding r_def by (simp add: handle_client_try_def)
    ultimately show ?thesis
      by (cases r) (simp add: close_connection_closes split: sum.split)
  qed
qed (simp_all add: handle_client_try_def)

text \<open>
  One iteration of the worker closes the connection exactly once when the loop goes on
  to the next connection, and not at all when an exception leaves the loop. The
  exceptions that leave it are \<^verbatim>\<open>KeyError\<close> and \<^verbatim>\<open>TypeError\<close>.
\<close>

lemma handle_client_closes:
  "closes (trace (snd (handle_client dk cli e w))) =
     closes (trace w) + (case fst (handle_client dk cli e w) of Inl x \<Rightarrow> 0 | Inr u \<Rightarrow> 1)"
  using handle_client_try_closes [of dk cli e w]
  by (cases "handle_client_try dk cli e w")
     (auto simp add: handle_client_def invalid_json_handler_def socket_error_handler_def
        close_connection_closes split: sum.split)

lemma handle_client_escapes:
  "fst (handle_client dk cli e w) \<noteq> Inl ValueError \<and> fst (handle_client dk cli e w) \<noteq> Inl OSError"
  by (cases "handle_client_try dk cli e w")
     (auto simp add: handle_client_def invalid_json_handler_def socket_error_handler_def
        split: sum.split)

section \<open>The claims\<close>

subsection \<open>A crawl command\<close>

text \<open>
  C1, as amended. For every decoded command with the action \<^verbatim>\<open>crawl\<close> and a \<^verbatim>\<open>path\<close>:
  when \<^verbatim>\<open>subprocess.Popen\<close> accepts the argument vector (every argument, the path among
  them, is a string that the file-system encoding can encode and that holds no null
  character) and the operating system starts the process, the captured output of the
  child is valid UTF-8 and the socket accepts both replies, \<^verbatim>\<open>run_command\<close> returns
  after it has spawned exactly one process, has generated exactly one task identifier,
  and has sent exactly two replies: \<^verbatim>\<open>{"msg": "taskstart", "taskid": "<id>"}\<close> and then
  \<^verbatim>\<open>{"msg": "taskfinish", "taskid": "<id>", "exitcode": <n>, "elapsedtime": "<time>"}\<close>,
  each ended by a newline, with that identifier in both. The argument vector holds the
  path, the resolved batch size and the resolved index. And in every run, whatever
  fails, exactly one task identifier is generated and at most one process is spawned,
  with that argument vector.
\<close>

theorem crawl_spawns_one_process:
  fixes m :: "string \<rightharpoonup> pyval" and dk :: diskover and cli :: cliargs and e :: env
    and path :: pyval and w :: world
  defines "index \<equiv> py_str (case m ''index'' of Some v \<Rightarrow> v
                                | None \<Rightarrow> PyStr (config_index (config dk)))"
    and "batchsize \<equiv> py_str (case m ''batchsize'' of Some v \<Rightarrow> v
                                | None \<Rightarrow> cli_batchsize cli)"
    and "adaptivebatch \<equiv> py_str (case m ''adaptivebatch'' of Some v \<Rightarrow> v
                                | None \<Rightarrow> cli_adaptivebatch cli)"
  defines "flag \<equiv> (if adaptivebatch = ''True'' \<or> adaptivebatch = ''true''
                     then [''-a''] else [])"
    and "taskid \<equiv> uuid4 e"
  defines "cmd \<equiv> [PyStr (python_path (config dk)), PyStr ''-u'',
                    PyStr (diskover_path (config dk)), PyStr ''-b'', PyStr batchsize,
                    PyStr ''-i'', PyStr index, PyStr ''-d'', path, PyStr ''-q'']
                   @ map PyStr flag"
    and \<open>start \<equiv> ''{"msg": "taskstart", "taskid": "'' @ taskid @ ''"}\<newline>''\<close>
  assumes action: "m ''action'' = Some (PyStr ''crawl'')"
    and path: "m ''path'' = Some path"
  shows \<open>(\<forall>pathtext argv p finish.
            path = PyStr pathtext
            \<and> argv = [python_path (config dk), ''-u'', diskover_path (config dk), ''-b'',
                       batchsize, ''-i'', index, ''-d'', pathtext, ''-q''] @ flag
            \<and> list_all (\<lambda>s. fs_encodable e s \<and> CHR 0x00 \<notin> set s) argv
            \<and> os_spawn e argv = Some p
            \<and> stdout_utf8 p \<and> stderr_utf8 p
            \<and> finish = ''{"msg": "taskfinish", "taskid": "'' @ taskid
                         @ ''", "exitcode": '' @ str_int (returncode p)
                         @ '', "elapsedtime": "''
                         @ py_str (get_time dk (time_end e - time_start e)) @ ''"}\<newline>''
            \<and> \<not> send_raises e start \<and> \<not> send_raises e finish
            \<longrightarrow> (\<exists>evs w'. run_command dk cli e (Dict m) w = (Inr (), w')
                   \<and> trace w' = trace w @ evs
                   \<and> spawned evs = [map PyStr argv]
                   \<and> generated evs = [taskid]
                   \<and> sent evs = [start, finish]))
       \<and> path \<in> set cmd \<and> PyStr batchsize \<in> set cmd \<and> PyStr index \<in> set cmd
       \<and> (\<exists>evs. trace (snd (run_command dk cli e (Dict m) w)) = trace w @ evs
             \<and> generated evs = [taskid]
             \<and> (spawned evs = [] \<or> spawned evs = [cmd]))\<close>
proof -
  let ?cmd0 = "[PyStr (python_path (config dk)), PyStr ''-u'', PyStr (diskover_path (config dk)),
                PyStr ''-b'', PyStr batchsize, PyStr ''-i'', PyStr index, PyStr ''-d'',
                path, PyStr ''-q'']"
  have built: "set_up_command dk (Dict m) batchsize index = Inr (Run ?cmd0)"
    using action path by (simp add: set_up_command_def subscript_def)
  have cmd: "add_adaptive_batch adaptivebatch ?cmd0 = cmd"
    unfolding cmd_def flag_def by (simp add: add_adaptive_batch_def)
  have run: "run_command dk cli e (Dict m) w = run_command_except e (run_process dk e cmd w)"
    unfolding run_command_Dict
    using built cmd unfolding index_def batchsize_def adaptivebatch_def
    by (simp add: run_command_try_def)
  have full: "\<exists>evs w'. run_command dk cli e (Dict m) w = (Inr (), w')
                   \<and> trace w' = trace w @ evs
                   \<and> spawned evs = [map PyStr argv]
                   \<and> generated evs = [taskid]
                   \<and> sent evs = [start, finish]"
    if is_text: "path = PyStr pathtext"
      and argv: "argv = [python_path (config dk), ''-u'', diskover_path (config dk), ''-b'',
                       batchsize, ''-i'', index, ''-d'', pathtext, ''-q''] @ flag"
      and accepted: "list_all (\<lambda>s. fs_encodable e s \<and> CHR 0x00 \<notin> set s) argv"
      and spawn: "os_spawn e argv = Some p"
      and utf8: "stdout_utf8 p" "stderr_utf8 p"
      and finish: "finish = taskfinish_message taskid (str_int (returncode p))
                         (py_str (get_time dk (time_end e - time_start e)))"
      and sends: "\<not> send_raises e start" "\<not> send_raises e finish"
    for pathtext argv p finish
  proof -
    have vector: "cmd = map PyStr argv"
      unfolding cmd_def argv is_text flag_def by simp
    have args: "check_args e cmd = Inr argv"
      unfolding vector using accepted by (rule check_args_strings)
    have "run_process dk e cmd w =
        clientsock_send e finish
          (w\<lparr>socket_tasks := (socket_tasks w)(taskid \<mapsto> p),
             trace := trace w @ [Uuid4 taskid, Popen cmd PIPE PIPE p, Register taskid p,
                                 Send (taskstart_message taskid), Communicate p]\<rparr>)"
      using run_process_success [OF args spawn _ utf8, of dk w] sends(1)
      unfolding taskid_def finish start_def by (simp add: taskstart_message_def)
    then have "run_command dk cli e (Dict m) w =
        (Inr (), w\<lparr>socket_tasks := (socket_tasks w)(taskid \<mapsto> p),
             trace := trace w @ [Uuid4 taskid, Popen cmd PIPE PIPE p, Register taskid p,
                                 Send start, Communicate p, Send finish]\<rparr>)"
      unfolding run using sends(2)
      by (simp add: run_command_except_def clientsock_send_def record_event_def start_def
          taskstart_message_def)
    then show ?thesis using vector by simp
  qed
  have mem: "path \<in> set cmd \<and> PyStr batchsize \<in> set cmd \<and> PyStr index \<in> set cmd"
    unfolding cmd_def by simp
  obtain evs where evs: "trace (snd (run_process dk e cmd w)) = trace w @ evs"
    and one: "generated evs = [taskid]" "spawned evs = [] \<or> spawned evs = [cmd]"
    using run_process_spawned [of dk e cmd w] unfolding taskid_def by blast
  obtain evs' where "trace (snd (run_command_except e (run_process dk e cmd w))) =
      trace w @ evs'" and "generated evs' = generated evs" and "spawned evs' = spawned evs"
    using run_command_except_spawned [OF evs, of e] by blast
  with one have always: "\<exists>evs. trace (snd (run_command dk cli e (Dict m) w)) = trace w @ evs
             \<and> generated evs = [taskid]
             \<and> (spawned evs = [] \<or> spawned evs = [cmd])"
    unfolding run by auto
  have "\<forall>pathtext argv p finish.
            path = PyStr pathtext
            \<and> argv = [python_path (config dk), ''-u'', diskover_path (config dk), ''-b'',
                       batchsize, ''-i'', index, ''-d'', pathtext, ''-q''] @ flag
            \<and> list_all (\<lambda>s. fs_encodable e s \<and> CHR 0x00 \<notin> set s) argv
            \<and> os_spawn e argv = Some p
            \<and> stdout_utf8 p \<and> stderr_utf8 p
            \<and> finish = taskfinish_message taskid (str_int (returncode p))
                         (py_str (get_time dk (time_end e - time_start e)))
            \<and> \<not> send_raises e start \<and> \<not> send_raises e finish
            \<longrightarrow> (\<exists>evs w'. run_command dk cli e (Dict m) w = (Inr (), w')
                   \<and> trace w' = trace w @ evs
                   \<and> spawned evs = [map PyStr argv]
                   \<and> generated evs = [taskid]
                   \<and> sent evs = [start, finish])"
    using full by blast
  then show ?thesis
    using mem always unfolding taskfinish_message_def by blast
qed

text \<open>
  The theorem at the command \<^verbatim>\<open>{"action": "crawl", "path": "/data"}\<close>, in an environment
  in which nothing fails.
\<close>

theorem crawl_spawns_one_process_witness:
  \<open>\<exists>evs w'.
      run_command example_diskover example_cliargs (example_env '''')
        (Dict [''action'' \<mapsto> PyStr ''crawl'', ''path'' \<mapsto> PyStr ''/data'']) initial_world
        = (Inr (), w')
      \<and> trace w' = trace initial_world @ evs
      \<and> spawned evs = [[PyStr ''python'', PyStr ''-u'', PyStr ''./diskover.py'', PyStr ''-b'',
                         PyStr ''50'', PyStr ''-i'', PyStr ''diskover-index'', PyStr ''-d'',
                         PyStr ''/data'', PyStr ''-q'']]
      \<and> generated evs = [''6f1c0a52-8d3e-4b7a-9c41-2e5d7f90ab13'']
      \<and> sent evs =
          [''{"msg": "taskstart", "taskid": "6f1c0a52-8d3e-4b7a-9c41-2e5d7f90ab13"}\<newline>'',
           ''{"msg": "taskfinish", "taskid": "6f1c0a52-8d3e-4b7a-9c41-2e5d7f90ab13", "exitcode": 0, "elapsedtime": "0:00:02"}\<newline>'']\<close>
proof -
  let ?m = "[''action'' \<mapsto> PyStr ''crawl'', ''path'' \<mapsto> PyStr ''/data'']"
  let ?e = "example_env ''''"
  let ?argv = "[''python'', ''-u'', ''./diskover.py'', ''-b'', ''50'', ''-i'', ''diskover-index'',
                ''-d'', ''/data'', ''-q'']"
  have action: "?m ''action'' = Some (PyStr ''crawl'')" by simp
  have path: "?m ''path'' = Some (PyStr ''/data'')" by simp
  note inst = crawl_spawns_one_process [where m = ?m and e = ?e and w = initial_world
      and dk = example_diskover and cli = example_cliargs, OF action path, THEN conjunct1,
      rule_format, where pathtext = "''/data''" and argv = ?argv and p = example_process]
  show ?thesis
    using inst
    by (simp add: example_diskover_def example_cliargs_def example_env_def example_process_def
        str_int_def str_nat.simps)
qed

text \<open>
  The claim as stated, that every such command spawns a process, fails at the command
  \<^verbatim>\<open>crawl\<close> whose path is \<^verbatim>\<open>/d\<close> followed by a null character (a string that JSON can
  express): \<^verbatim>\<open>subprocess.Popen\<close> refuses the null character with a \<^verbatim>\<open>ValueError\<close>,
  which \<^verbatim>\<open>run_command\<close> answers with the value error reply. No process is spawned, no
  task is registered, and neither a taskstart nor a taskfinish reply is sent.
\<close>

theorem crawl_null_path_counterexample:
  \<open>(case run_command example_diskover example_cliargs (example_env '''')
           (Dict [''action'' \<mapsto> PyStr ''crawl'',
                  ''path'' \<mapsto> PyStr [CHR ''/'', CHR ''d'', CHR 0x00]])
           initial_world of
      (r, w') \<Rightarrow> r = Inr () \<and> spawned (trace w') = []
                 \<and> sent (trace w') = [''{"error": "value error"}\<newline>'']
                 \<and> dom (socket_tasks w') = {})\<close>
  by (simp add: run_command_def run_command_except_def run_command_try_def run_process_def
      set_up_command_def add_adaptive_batch_def field_or_default_def subscript_def
      subprocess_Popen_def clientsock_send_def record_event_def value_error_message_def
      example_diskover_def example_cliargs_def example_env_def example_process_def
      initial_world_def str_int_def str_nat.simps Let_def)

text \<open>
  The same happens at the path \<^verbatim>\<open>"/d\ud800"\<close>, a string without a null character that the
  file-system encoding cannot encode.
\<close>

lemma crawl_unencodable_path_value_error:
  \<open>(case run_command example_diskover example_cliargs (example_env '''')
           (Dict [''action'' \<mapsto> PyStr ''crawl'',
                  ''path'' \<mapsto> PyStr [CHR ''/'', CHR ''d'', CHR 0xED, CHR 0xA0, CHR 0x80]])
           initial_world of
      (r, w') \<Rightarrow> r = Inr () \<and> spawned (trace w') = []
                 \<and> sent (trace w') = [''{"error": "value error"}\<newline>'']
                 \<and> dom (socket_tasks w') = {})\<close>
  by (simp add: run_command_def run_command_except_def run_command_try_def run_process_def
      set_up_command_def add_adaptive_batch_def field_or_default_def subscript_def
      subprocess_Popen_def clientsock_send_def record_event_def value_error_message_def
      example_diskover_def example_cliargs_def example_env_def example_process_def
      initial_world_def str_int_def str_nat.simps Let_def)

subsection \<open>A missing required field\<close>

text \<open>
  C2. A recognised action without its required field is claimed to be answered with
  the value error reply. At the request \<^verbatim>\<open>{"action": "crawl"}\<close> the subscript
  \<^verbatim>\<open>command_dict['path']\<close> (line 199) raises \<^verbatim>\<open>KeyError\<close>, which is neither a
  \<^verbatim>\<open>ValueError\<close> nor a \<^verbatim>\<open>socket.error\<close>: it leaves \<^verbatim>\<open>run_command\<close>, and then the
  loop of \<^verbatim>\<open>socket_thread_handler\<close>, whose handlers do not catch it either. Nothing is
  sent, no process is spawned, no task is registered, and the connection is not closed.
\<close>

theorem crawl_without_path_raises:
  \<open>run_command example_diskover example_cliargs (example_env ''{"action": "crawl"}'')
     (Dict [''action'' \<mapsto> PyStr ''crawl'']) initial_world = (Inl KeyError, initial_world)
   \<and> handle_client example_diskover example_cliargs (example_env ''{"action": "crawl"}'')
       initial_world = (Inl KeyError, initial_world)\<close>
  by (simp add: handle_client_def handle_client_try_def run_command_def run_command_except_def
      run_command_try_def set_up_command_def field_or_default_def subscript_def
      example_env_def example_json_loads_def)

subsection \<open>A request that is not JSON\<close>

text \<open>
  C3. A request that is not JSON is claimed to be answered with an error reply. At the
  request \<^verbatim>\<open>{bad\<close> the handler of \<^verbatim>\<open>ValueError\<close> raises \<^verbatim>\<open>TypeError\<close> while it builds
  the reply (line 84): nothing is sent, the connection is not closed, and the exception
  leaves the loop. The dispatcher is not called, no process is spawned and no task is
  registered.
\<close>

theorem malformed_json_raises:
  \<open>handle_client example_diskover example_cliargs (example_env ''{bad'') initial_world
     = (Inl TypeError, initial_world)\<close>
  by (simp add: handle_client_def handle_client_try_def invalid_json_handler_def
      example_env_def example_json_loads_def)

subsection \<open>A command without an action\<close>

text \<open>
  C4. A command whose \<^verbatim>\<open>action\<close> is missing is claimed to be answered with the unknown
  action reply. At the request \<^verbatim>\<open>{"index": "idx"}\<close> the subscript
  \<^verbatim>\<open>command_dict['action']\<close> (line 193) raises \<^verbatim>\<open>KeyError\<close>, which no handler catches:
  nothing is sent and the connection is not closed. (A command whose action is present
  and unknown is answered as claimed: lemma \<open>unknown_action_reply\<close>.)
\<close>

theorem missing_action_raises:
  \<open>run_command example_diskover example_cliargs (example_env ''{"index": "idx"}'')
     (Dict [''index'' \<mapsto> PyStr ''idx'']) initial_world = (Inl KeyError, initial_world)
   \<and> handle_client example_diskover example_cliargs (example_env ''{"index": "idx"}'')
       initial_world = (Inl KeyError, initial_world)\<close>
  by (simp add: handle_client_def handle_client_try_def run_command_def run_command_except_def
      run_command_try_def set_up_command_def field_or_default_def subscript_def
      example_env_def example_json_loads_def)

subsection \<open>Closing the connection\<close>

text \<open>
  C5. Every exit path is claimed to close the connection exactly once. A worker that
  takes a connection whose request is not JSON (here with the headers a naive client
  sends before it) and then a connection that sends \<^verbatim>\<open>ping\<close>: on the first connection
  the \<^verbatim>\<open>TypeError\<close> of line 84 ends the worker before the close of line 88, so the
  connection is never closed, and the second connection is never served. (On the paths
  on which the loop goes on, the connection is closed exactly once: lemma
  \<open>handle_client_closes\<close>.)
\<close>

theorem malformed_json_leaves_connection_open:
  "socket_thread_handler example_diskover example_cliargs
     [example_env (''POST / HTTP/1.1'' @ [CHR 0x0D, CHR 0x0A, CHR 0x0D, CHR 0x0A] @ ''not json''),
      example_env ''ping'']
     initial_world = (Some TypeError, initial_world)
   \<and> closes (trace (snd (socket_thread_handler example_diskover example_cliargs
     [example_env (''POST / HTTP/1.1'' @ [CHR 0x0D, CHR 0x0A, CHR 0x0D, CHR 0x0A] @ ''not json''),
      example_env ''ping'']
     initial_world))) = 0"
  by (simp add: handle_client_def handle_client_try_def invalid_json_handler_def
      example_env_def example_json_loads_def initial_world_def)

subsection \<open>The adaptive batch flag\<close>

text \<open>
  C6, as amended. For every command for which an argument vector is set up (crawl and
  reindex with a path, finddupes), the vector handed to \<^verbatim>\<open>subprocess.Popen\<close>, and so the
  vector of every process spawned for the command, is that vector followed by \<^verbatim>\<open>-a\<close>
  exactly when \<^verbatim>\<open>str\<close> of the resolved adaptive batch value (the field of the command
  if present, else the default of the caller) is \<^verbatim>\<open>True\<close> or \<^verbatim>\<open>true\<close>; every other
  text, other capitalisations of \<^verbatim>\<open>true\<close> among them, leaves the vector as it is.
\<close>

theorem adaptive_batch_flag:
  fixes m :: "string \<rightharpoonup> pyval" and dk :: diskover and cli :: cliargs and e :: env and w :: world
  defines "index \<equiv> py_str (case m ''index'' of Some v \<Rightarrow> v
                                | None \<Rightarrow> PyStr (config_index (config dk)))"
    and "batchsize \<equiv> py_str (case m ''batchsize'' of Some v \<Rightarrow> v
                                | None \<Rightarrow> cli_batchsize cli)"
    and "adaptivebatch \<equiv> py_str (case m ''adaptivebatch'' of Some v \<Rightarrow> v
                                | None \<Rightarrow> cli_adaptivebatch cli)"
  defines "flag \<equiv> (if adaptivebatch = ''True'' \<or> adaptivebatch = ''true''
                     then [PyStr ''-a''] else [])"
  assumes built: "set_up_command dk (Dict m) batchsize index = Inr (Run cmd)"
  shows "run_command dk cli e (Dict m) w =
           run_command_except e (run_process dk e (cmd @ flag) w)
         \<and> (\<exists>evs. trace (snd (run_command dk cli e (Dict m) w)) = trace w @ evs
               \<and> (spawned evs = [] \<or> spawned evs = [cmd @ flag]))"
proof -
  have run: "run_command dk cli e (Dict m) w =
           run_command_except e (run_process dk e (cmd @ flag) w)"
    unfolding run_command_Dict
    using built unfolding index_def batchsize_def adaptivebatch_def flag_def
    by (simp add: run_command_try_def add_adaptive_batch_def)
  obtain evs where evs: "trace (snd (run_process dk e (cmd @ flag) w)) = trace w @ evs"
    and one: "spawned evs = [] \<or> spawned evs = [cmd @ flag]"
    using run_process_spawned [of dk e "cmd @ flag" w] by blast
  obtain evs' where "trace (snd (run_command_except e (run_process dk e (cmd @ flag) w))) =
      trace w @ evs'" and "spawned evs' = spawned evs"
    using run_command_except_spawned [OF evs, of e] by blast
  with one run show ?thesis by auto
qed

text \<open>
  The theorem at the command \<^verbatim>\<open>{"action": "finddupes", "adaptivebatch": true}\<close>: the
  JSON boolean, whose \<^verbatim>\<open>str\<close> is \<^verbatim>\<open>True\<close>, appends the flag.
\<close>

theorem adaptive_batch_flag_witness:
  "run_command example_diskover example_cliargs (example_env '''')
     (Dict [''action'' \<mapsto> PyStr ''finddupes'', ''adaptivebatch'' \<mapsto> PyBool True]) initial_world =
   run_command_except (example_env '''')
     (run_process example_diskover (example_env '''')
        [PyStr ''python'', PyStr ''-u'', PyStr ''./diskover.py'', PyStr ''-b'', PyStr ''50'',
         PyStr ''-i'', PyStr ''diskover-index'', PyStr ''--finddupes'', PyStr ''-q'',
         PyStr ''-a'']
        initial_world)"
proof -
  let ?m = "[''action'' \<mapsto> PyStr ''finddupes'', ''adaptivebatch'' \<mapsto> PyBool True]"
  let ?cmd = "[PyStr ''python'', PyStr ''-u'', PyStr ''./diskover.py'', PyStr ''-b'', PyStr ''50'',
         PyStr ''-i'', PyStr ''diskover-index'', PyStr ''--finddupes'', PyStr ''-q'']"
  have built: "set_up_command example_diskover (Dict ?m)
       (py_str (case ?m ''batchsize'' of Some v \<Rightarrow> v | None \<Rightarrow> cli_batchsize example_cliargs))
       (py_str (case ?m ''index'' of Some v \<Rightarrow> v
                | None \<Rightarrow> PyStr (config_index (config example_diskover))))
     = Inr (Run ?cmd)"
    by (simp add: set_up_command_def subscript_def example_diskover_def example_cliargs_def
        str_int_def str_nat.simps)
  from adaptive_batch_flag [where m = ?m and e = "example_env ''''" and w = initial_world,
      OF built, THEN conjunct1]
  show ?thesis by simp
qed

text \<open>
  The claim as stated, a comparison that ignores case, fails at the command
  \<^verbatim>\<open>{"action": "finddupes", "adaptivebatch": "TRUE"}\<close>: the one process spawned has no
  \<^verbatim>\<open>-a\<close> in its argument vector.
\<close>

theorem adaptive_batch_upper_case_counterexample:
  "spawned (trace (snd (run_command example_diskover example_cliargs (example_env '''')
     (Dict [''action'' \<mapsto> PyStr ''finddupes'', ''adaptivebatch'' \<mapsto> PyStr ''TRUE''])
     initial_world)))
   = [[PyStr ''python'', PyStr ''-u'', PyStr ''./diskover.py'', PyStr ''-b'', PyStr ''50'',
       PyStr ''-i'', PyStr ''diskover-index'', PyStr ''--finddupes'', PyStr ''-q'']]"
  by (simp add: run_command_def run_command_except_def run_command_try_def run_process_def
      set_up_command_def add_adaptive_batch_def field_or_default_def subscript_def
      subprocess_Popen_def clientsock_send_def record_event_def
      example_diskover_def example_cliargs_def example_env_def example_process_def
      initial_world_def str_int_def str_nat.simps Let_def)

subsection \<open>The argument vector of a reindex command\<close>

text \<open>
  C7. For a \<^verbatim>\<open>reindex\<close> command with a \<^verbatim>\<open>path\<close>, the argument vector is the interpreter,
  the program, the batch size, the index and the path, followed by exactly one of the
  two reindex flags and by \<^verbatim>\<open>-q\<close>: the flag is the recursive \<^verbatim>\<open>-R\<close> when the field
  \<^verbatim>\<open>recursive\<close> is the string \<^verbatim>\<open>true\<close>, and the non-recursive \<^verbatim>\<open>-r\<close> when the field is
  absent or has any other value.
\<close>

theorem reindex_flag:
  assumes "m ''action'' = Some (PyStr ''reindex'')"
    and "m ''path'' = Some path"
  shows "set_up_command dk (Dict m) batchsize index =
           Inr (Run ([PyStr (python_path (config dk)), PyStr ''-u'',
                      PyStr (diskover_path (config dk)), PyStr ''-b'', PyStr batchsize,
                      PyStr ''-i'', PyStr index, PyStr ''-d'', path]
                     @ [PyStr (if m ''recursive'' = Some (PyStr ''true'') then ''-R'' else ''-r'')]
                     @ [PyStr ''-q'']))"
  using assms
  by (cases "m ''recursive''") (simp_all add: set_up_command_def subscript_def)

text \<open>
  The theorem at the command \<^verbatim>\<open>{"action": "reindex", "path": "/data", "recursive": true}\<close>:
  the JSON boolean is not the string \<^verbatim>\<open>true\<close>, and the flag is \<^verbatim>\<open>-r\<close>.
\<close>

theorem reindex_flag_witness:
  "set_up_command example_diskover
     (Dict [''action'' \<mapsto> PyStr ''reindex'', ''path'' \<mapsto> PyStr ''/data'',
            ''recursive'' \<mapsto> PyBool True])
     ''50'' ''idx''
   = Inr (Run [PyStr ''python'', PyStr ''-u'', PyStr ''./diskover.py'', PyStr ''-b'',
               PyStr ''50'', PyStr ''-i'', PyStr ''idx'', PyStr ''-d'', PyStr ''/data'',
               PyStr ''-r'', PyStr ''-q''])"
  using reindex_flag [of "[''action'' \<mapsto> PyStr ''reindex'', ''path'' \<mapsto> PyStr ''/data'',
            ''recursive'' \<mapsto> PyBool True]" "PyStr ''/data''" example_diskover]
  by (simp add: example_diskover_def)

subsection \<open>The order of the steps of a task\<close>




subsection \<open>The kill command\<close>

text \<open>
  C9, as amended. For every decoded command with the action \<^verbatim>\<open>kill\<close> and a \<^verbatim>\<open>taskid\<close>,
  \<^verbatim>\<open>run_command\<close> returns, and all it does is to call \<^verbatim>\<open>send\<close> once, with the reply
  \<^verbatim>\<open>{"msg": "taskkilled"}\<close> and a newline: the reply is sent when the socket accepts it;
  when the socket raises \<^verbatim>\<open>socket.error\<close>, the error is caught and logged (lines 278 to
  280) and nothing is sent. In both cases no process is spawned, and whatever the task
  registry holds, it holds the same afterwards and has no influence on what is done.
\<close>

theorem kill_only_acknowledges:
  assumes "m ''action'' = Some (PyStr ''kill'')"
    and "m ''taskid'' = Some taskid"
  shows \<open>run_command dk cli e (Dict m) (w\<lparr>socket_tasks := tasks\<rparr>) =
           (Inr (),
            w\<lparr>socket_tasks := tasks,
              trace := trace w @ [if send_raises e ''{"msg": "taskkilled"}\<newline>''
                                  then Send_failed ''{"msg": "taskkilled"}\<newline>''
                                  else Send ''{"msg": "taskkilled"}\<newline>'']\<rparr>)\<close>
  unfolding run_command_Dict using assms
  by (simp add: run_command_try_def run_command_except_def set_up_command_def subscript_def
      clientsock_send_def record_event_def taskkilled_message_def)

text \<open>
  The theorem at the command \<^verbatim>\<open>{"action": "kill", "taskid": "6f1c0a52"}\<close>, with that
  task in the registry and a socket that accepts the reply: the reply is sent, the task
  is still in the registry, and nothing was done to it.
\<close>

theorem kill_only_acknowledges_witness:
  \<open>run_command example_diskover example_cliargs (example_env '''')
     (Dict [''action'' \<mapsto> PyStr ''kill'', ''taskid'' \<mapsto> PyStr ''6f1c0a52''])
     (initial_world\<lparr>socket_tasks := [''6f1c0a52'' \<mapsto> example_process]\<rparr>) =
   (Inr (),
    initial_world\<lparr>socket_tasks := [''6f1c0a52'' \<mapsto> example_process],
                  trace := [Send ''{"msg": "taskkilled"}\<newline>'']\<rparr>)\<close>
  using kill_only_acknowledges [where m = "[''action'' \<mapsto> PyStr ''kill'', ''taskid'' \<mapsto> PyStr ''6f1c0a52'']"
      and taskid = "PyStr ''6f1c0a52''" and dk = example_diskover and cli = example_cliargs
      and e = "example_env ''''" and w = initial_world
      and tasks = "[''6f1c0a52'' \<mapsto> example_process]"]
  by (simp add: example_env_def initial_world_def)

text \<open>
  The claim as stated, that the reply is sent for every such command, fails at the same
  command when the socket refuses every send (the client has gone): \<^verbatim>\<open>run_command\<close>
  returns and nothing has been sent.
\<close>

theorem kill_reply_not_sent_counterexample:
  "(case run_command example_diskover example_cliargs
           ((example_env '''')\<lparr>send_raises := (\<lambda>message. True)\<rparr>)
           (Dict [''action'' \<mapsto> PyStr ''kill'', ''taskid'' \<mapsto> PyStr ''6f1c0a52''])
           (initial_world\<lparr>socket_tasks := [''6f1c0a52'' \<mapsto> example_process]\<rparr>) of
      (r, w') \<Rightarrow> r = Inr () \<and> sent (trace w') = [])"
  by (simp add: run_command_def run_command_except_def run_command_try_def
      set_up_command_def field_or_default_def subscript_def clientsock_send_def
      record_event_def example_env_def initial_world_def)

subsection \<open>The client list\<close>

text \<open>
  C10. In every run of the server from its initial state, the acceptor appends each
  accepted connection to \<^verbatim>\<open>clientlist\<close> before it puts it on the queue (whatever is on
  the queue, or held by the acceptor for the queue, is in the list), and nothing removes
  an entry: the list is exactly the connections accepted so far, in their order, so
  after \<open>k\<close> connections it has \<open>k\<close> entries, however many of them the workers have
  handled and closed.
\<close>

theorem clientlist_grows_with_accepts:
  assumes "run_server dk cli as initial_server = Some s"
  shows "clientlist (globals s) = accepted as
         \<and> length (clientlist (globals s)) = length (accepted as)
         \<and> set (queue s) \<union> set_option (pending s) \<subseteq> set (clientlist (globals s))"
proof -
  have "clientlist (globals s) = accepted as"
    using run_server_clientlist [OF assms] by (simp add: initial_server_def initial_world_def)
  moreover have "set (queue s) \<union> set_option (pending s) \<subseteq> set (clientlist (globals s))"
    by (rule run_server_queue [OF assms]) (simp add: initial_server_def)
  ultimately show ?thesis by simp
qed

text \<open>
  The theorem on a run in which two connections are accepted and the first is handled
  (a \<^verbatim>\<open>ping\<close>) and closed: the list holds both.
\<close>

theorem clientlist_grows_with_accepts_witness:
  "\<exists>s. run_server example_diskover example_cliargs
          [Accept (1, ''10.0.0.1''), Put, Accept (2, ''10.0.0.2''), Work (example_env ''ping''), Put]
          initial_server = Some s
       \<and> clientlist (globals s) = [(1, ''10.0.0.1''), (2, ''10.0.0.2'')]
       \<and> length (clientlist (globals s)) = 2
       \<and> queue s = [(2, ''10.0.0.2'')]"
proof -
  have run: "run_server example_diskover example_cliargs
          [Accept (1, ''10.0.0.1''), Put, Accept (2, ''10.0.0.2''), Work (example_env ''ping''), Put]
          initial_server
        = Some \<lparr>globals = \<lparr>socket_tasks = Map.empty,
                              clientlist = [(1, ''10.0.0.1''), (2, ''10.0.0.2'')],
                              trace = [Send ''pong'', Close, Task_done]\<rparr>,
                  queue = [(2, ''10.0.0.2'')], pending = None\<rparr>"
    by (simp add: initial_server_def initial_world_def max_connections_def handle_client_def
        handle_client_try_def clientsock_send_def close_connection_def record_event_def
        example_env_def)
  from clientlist_grows_with_accepts [OF run] run show ?thesis by simp
qed

end
